theory Spec2Isabelle
  imports Complex_Main "HOL-Library.Multiset"
begin

section \<open>Data model of the matching engine (backend/ai/matcher.py)\<close>

text \<open>
  The engine works on Python dictionaries. A key of an opportunity dictionary can be
  missing, can hold \<^verbatim>\<open>None\<close> (the parser and the crawlers store \<^verbatim>\<open>None\<close> for
  information they did not find) or can hold a value of the field's type; the three cases
  are kept apart because \<^verbatim>\<open>d.get(k, default)\<close> and \<^verbatim>\<open>d.get(k) or default\<close> treat them
  differently. A key of the raw user data is missing or holds a value of its type. Python
  floats are modelled as real numbers (rounding is abstracted away), Python integers as
  \<open>int\<close>, strings as character lists: a character below 128 is an ASCII character, and
  text beyond ASCII is the byte sequence of its UTF-8 encoding (concatenation, emptiness
  and the substring test agree with that encoding).
\<close>

datatype error = TypeError | ValueError | IndexError | KeyError

datatype 'a field = Absent | Null | Present 'a

type_synonym vec = "real list"

record opportunity =
  opp_title :: "string field"
  opp_company :: "string field"
  opp_type :: "string field"
  opp_location :: "string field"
  opp_remote :: "bool field"
  opp_description :: "string field"
  opp_requirements :: "string list field"
  opp_skills :: "string list field"
  opp_compensation :: "string field"
  opp_is_still_open :: "bool field"
  opp_match_score :: "real option"

record user_data =
  ud_skills :: "string list option"
  ud_interests :: "string list option"
  ud_education :: "string option"
  ud_experience :: "int option"
  ud_locations :: "string list option"
  ud_types :: "string list option"
  ud_remote_only :: "bool option"
  ud_companies :: "string list option"
  ud_salary_min :: "int option"
  ud_keywords :: "string list option"

record profile =
  skills :: "string list"
  interests :: "string list"
  education_level :: string
  experience_years :: int
  preferred_locations :: "string list"
  preferred_types :: "string list"
  remote_only :: bool
  target_companies :: "string list"
  salary_min :: int
  key_words :: "string list"
  skills_text :: "string option"
  skills_embedding :: "vec option"
  interests_text :: "string option"
  interests_embedding :: "vec option"

section \<open>Dictionary access and string primitives\<close>

text \<open>\<^verbatim>\<open>d.get(k, default)\<close>: the default replaces a missing key only; a stored
  \<^verbatim>\<open>None\<close> comes back as \<^verbatim>\<open>None\<close> (here \<open>None\<close>).\<close>

fun get_default :: "'a \<Rightarrow> 'a field \<Rightarrow> 'a option" where
  "get_default d Absent = Some d"
| "get_default d Null = None"
| "get_default d (Present v) = Some v"

text \<open>\<^verbatim>\<open>d.get(k) or default\<close> on a string or list field: a missing key, \<^verbatim>\<open>None\<close>
  and the empty value are all falsy and give the default.\<close>

fun get_or :: "'a list field \<Rightarrow> 'a list \<Rightarrow> 'a list" where
  "get_or (Present v) d = (if v = [] then d else v)"
| "get_or f d = d"

text \<open>Truth value of \<^verbatim>\<open>d.get(k)\<close> for a boolean field.\<close>

fun truthy :: "bool field \<Rightarrow> bool" where
  "truthy (Present b) = b"
| "truthy f = False"

text \<open>Truth value of \<^verbatim>\<open>d.get(k)\<close> for a string or list field.\<close>

fun truthy_list :: "'a list field \<Rightarrow> bool" where
  "truthy_list (Present v) = (v \<noteq> [])"
| "truthy_list f = False"

text \<open>\<^verbatim>\<open>str.lower()\<close>. On text that is all ASCII it maps the letters A to Z to a to z
  and leaves every other character alone. On text with a character beyond ASCII the
  result comes from the case tables of the Unicode database of the Python runtime (they
  fold every cased letter, and can change the length of the text); those tables are not
  part of the repository, so that part of \<^verbatim>\<open>str.lower()\<close> is the parameter
  \<open>unicode_lower\<close> of every function that lower-cases text.\<close>

type_synonym lowering = "string \<Rightarrow> string"

definition is_ascii :: "char \<Rightarrow> bool" where
  "is_ascii c = ((of_char c :: nat) < 128)"

definition lower_char :: "char \<Rightarrow> char" where
  "lower_char c =
     (let n = (of_char c :: nat) in if 65 \<le> n \<and> n \<le> 90 then char_of (n + 32) else c)"

definition lower :: "lowering \<Rightarrow> string \<Rightarrow> string" where
  "lower unicode_lower s = (if list_all is_ascii s then map lower_char s else unicode_lower s)"

text \<open>\<^verbatim>\<open>sep.join(xs)\<close>.\<close>

fun join :: "string \<Rightarrow> string list \<Rightarrow> string" where
  "join sep [] = []"
| "join sep [x] = x"
| "join sep (x # y # ys) = x @ sep @ join sep (y # ys)"

text \<open>\<^verbatim>\<open>sub in s\<close> on strings: \<open>sub\<close> occurs in \<open>s\<close> as a contiguous substring.\<close>

fun starts_with :: "string \<Rightarrow> string \<Rightarrow> bool" where
  "starts_with s [] = True"
| "starts_with [] (c # sub) = False"
| "starts_with (d # s) (c # sub) = (d = c \<and> starts_with s sub)"

fun str_in :: "string \<Rightarrow> string \<Rightarrow> bool" where
  "str_in sub [] = (sub = [])"
| "str_in sub (d # s) = (starts_with (d # s) sub \<or> str_in sub s)"

text \<open>Sequencing of computations that may raise.\<close>

fun bind_err :: "error + 'a \<Rightarrow> ('a \<Rightarrow> error + 'b) \<Rightarrow> error + 'b" where
  "bind_err (Inl e) f = Inl e"
| "bind_err (Inr x) f = f x"

section \<open>Factor scorers\<close>

text \<open>\<^verbatim>\<open>_cosine_similarity\<close>: \<^verbatim>\<open>np.dot\<close> raises ValueError on vectors of different
  length; a zero norm makes the quotient 0/0, which numpy evaluates to NaN (with a
  warning, no exception). NaN is the result \<open>None\<close>.\<close>

definition dot :: "vec \<Rightarrow> vec \<Rightarrow> error + real" where
  "dot v1 v2 =
     (if length v1 \<noteq> length v2 then Inl ValueError
      else Inr (sum_list (map (\<lambda>(a, b). a * b) (zip v1 v2))))"

definition linalg_norm :: "vec \<Rightarrow> real" where
  "linalg_norm v = sqrt (sum_list (map (\<lambda>a. a * a) v))"

definition cosine_similarity :: "vec \<Rightarrow> vec \<Rightarrow> error + real option" where
  "cosine_similarity vec1 vec2 =
     bind_err (dot vec1 vec2) (\<lambda>d.
       let n = linalg_norm vec1 * linalg_norm vec2
       in if n = 0 then Inr None else Inr (Some (d / n)))"

text \<open>\<^verbatim>\<open>max(0, similarity * 100)\<close>: Python's \<^verbatim>\<open>max\<close> keeps its first argument
  unless a later one compares greater, and every comparison with NaN is false, so a NaN
  similarity gives 0.\<close>

fun skill_score_of :: "real option \<Rightarrow> real" where
  "skill_score_of None = 0"
| "skill_score_of (Some similarity) = max 0 (similarity * 100)"

text \<open>The loop \<^verbatim>\<open>for pref in preferred: if pref in text: return 100.0\<close> of
  \<^verbatim>\<open>_match_location\<close> and \<^verbatim>\<open>_match_company\<close>: does it return inside the loop?\<close>

fun loop_hit :: "string list \<Rightarrow> string \<Rightarrow> bool" where
  "loop_hit [] text = False"
| "loop_hit (pref # rest) text = (if str_in pref text then True else loop_hit rest text)"

definition match_location :: "lowering \<Rightarrow> opportunity \<Rightarrow> profile \<Rightarrow> real" where
  "match_location unicode_lower opportunity user_profile =
     (if remote_only user_profile \<and> truthy (opp_remote opportunity) then 100
      else
        let location = lower unicode_lower (get_or (opp_location opportunity) '''');
            preferred = map (lower unicode_lower) (preferred_locations user_profile)
        in if loop_hit preferred location then 100
           else if truthy (opp_remote opportunity) then 70
           else 0)"

definition match_type :: "lowering \<Rightarrow> opportunity \<Rightarrow> profile \<Rightarrow> real" where
  "match_type unicode_lower opportunity user_profile =
     (let ty = lower unicode_lower (get_or (opp_type opportunity) ''job'')
      in if ty \<in> set (preferred_types user_profile) then 100 else 0)"

definition match_experience :: "lowering \<Rightarrow> opportunity \<Rightarrow> profile \<Rightarrow> error + real" where
  "match_experience unicode_lower opportunity user_profile =
     (let description = lower unicode_lower (get_or (opp_description opportunity) '''')
      in case get_default [] (opp_requirements opportunity) of
           None \<Rightarrow> Inl TypeError
         | Some reqs \<Rightarrow>
             let requirements = lower unicode_lower (join '' '' reqs);
                 combined = description @ '' '' @ requirements;
                 user_exp = experience_years user_profile
             in if list_ex (\<lambda>word. str_in word combined)
                     [''entry level'', ''junior'', ''internship'', ''graduate'']
                then Inr (if user_exp \<le> 2 then 100 else 50)
                else if list_ex (\<lambda>word. str_in word combined)
                     [''mid level'', ''2-5 years'', ''3+ years'']
                then Inr (if 2 \<le> user_exp \<and> user_exp \<le> 5 then 100 else 50)
                else if list_ex (\<lambda>word. str_in word combined)
                     [''senior'', ''5+ years'', ''lead'', ''principal'']
                then Inr (if user_exp \<ge> 5 then 100 else 30)
                else Inr 50)"

definition match_company :: "lowering \<Rightarrow> opportunity \<Rightarrow> profile \<Rightarrow> real" where
  "match_company unicode_lower opportunity user_profile =
     (if target_companies user_profile = [] then 50
      else
        let company = lower unicode_lower (get_or (opp_company opportunity) '''');
            targets = map (lower unicode_lower) (target_companies user_profile)
        in if loop_hit targets company then 100 else 0)"

text \<open>\<^verbatim>\<open>_match_keywords\<close> reads title, description and skills with
  \<^verbatim>\<open>get(k, default)\<close>, so a stored \<^verbatim>\<open>None\<close> reaches \<^verbatim>\<open>' '.join\<close>, which raises
  TypeError.\<close>

definition match_keywords :: "lowering \<Rightarrow> opportunity \<Rightarrow> profile \<Rightarrow> error + real" where
  "match_keywords unicode_lower opportunity user_profile =
     (if key_words user_profile = [] then Inr 50
      else
        case (get_default '''' (opp_title opportunity),
              get_default '''' (opp_description opportunity),
              get_default [] (opp_skills opportunity)) of
          (Some t, Some d, Some sk) \<Rightarrow>
            let opp_text = lower unicode_lower (join '' '' [t, d, join '' '' sk]);
                kws = map (lower unicode_lower) (key_words user_profile);
                matches = length (filter (\<lambda>kw. str_in kw opp_text) kws)
            in if kws = [] then Inr 50
               else Inr ((real matches / real (length kws)) * 100)
        | _ \<Rightarrow> Inl TypeError)"

text \<open>\<^verbatim>\<open>not opportunity.get('is_still_open', True)\<close>: a missing key counts as open, a
  stored \<^verbatim>\<open>None\<close> or \<^verbatim>\<open>False\<close> as closed.\<close>

fun is_closed :: "bool field \<Rightarrow> bool" where
  "is_closed Absent = False"
| "is_closed Null = True"
| "is_closed (Present b) = (\<not> b)"

definition apply_modifiers :: "real \<Rightarrow> opportunity \<Rightarrow> profile \<Rightarrow> real" where
  "apply_modifiers base_score opportunity user_profile =
     (let score = base_score;
          score = (if is_closed (opp_is_still_open opportunity) then score * 0.5 else score);
          score = (if truthy_list (opp_compensation opportunity) \<and> salary_min user_profile \<noteq> 0
                   then score else score)
      in score)"

section \<open>Aggregation\<close>

text \<open>The embedding model \<^verbatim>\<open>self.model.encode\<close> is external to the engine; it is the
  parameter \<open>encode\<close> of every function that uses it.\<close>

type_synonym encoder = "string \<Rightarrow> vec"

text \<open>Step 1 of \<^verbatim>\<open>calculate_match_score\<close>: the entries that the skills branch appends
  to \<^verbatim>\<open>scores\<close> and \<^verbatim>\<open>weights\<close>.\<close>

definition skill_factor :: "encoder \<Rightarrow> opportunity \<Rightarrow> profile \<Rightarrow> error + (real list \<times> real list)" where
  "skill_factor encode opportunity user_profile =
     (case (opp_skills opportunity, skills_embedding user_profile) of
        (Present sk, Some emb) \<Rightarrow>
          if sk = [] then Inr ([], [])
          else
            let opp_skills_text = join '', '' sk;
                opp_embedding = encode opp_skills_text
            in bind_err (cosine_similarity opp_embedding emb) (\<lambda>similarity.
                 Inr ([skill_score_of similarity], [0.40]))
      | _ \<Rightarrow> Inr ([], []))"

text \<open>\<^verbatim>\<open>total_score = sum(s * w for s, w in zip(scores, weights))\<close>, the value before
  the modifiers.\<close>

definition weighted_total :: "encoder \<Rightarrow> lowering \<Rightarrow> opportunity \<Rightarrow> profile \<Rightarrow> error + real" where
  "weighted_total encode unicode_lower opportunity user_profile =
     bind_err (skill_factor encode opportunity user_profile) (\<lambda>(scores, weights).
       let scores = scores @ [match_location unicode_lower opportunity user_profile];
           weights = weights @ [0.20];
           scores = scores @ [match_type unicode_lower opportunity user_profile];
           weights = weights @ [0.15]
       in bind_err (match_experience unicode_lower opportunity user_profile) (\<lambda>experience_score.
            let scores = scores @ [experience_score];
                weights = weights @ [0.10];
                scores = scores @ [match_company unicode_lower opportunity user_profile];
                weights = weights @ [0.10]
            in bind_err (match_keywords unicode_lower opportunity user_profile) (\<lambda>keyword_score.
                 let scores = scores @ [keyword_score];
                     weights = weights @ [0.05]
                 in Inr (sum_list (map (\<lambda>(s, w). s * w) (zip scores weights))))))"

definition calculate_match_score ::
    "encoder \<Rightarrow> lowering \<Rightarrow> opportunity \<Rightarrow> profile \<Rightarrow> error + real" where
  "calculate_match_score encode unicode_lower opportunity user_profile =
     bind_err (weighted_total encode unicode_lower opportunity user_profile) (\<lambda>total_score.
       let total_score = apply_modifiers total_score opportunity user_profile
       in Inr (max 0 (min 100 total_score)))"

section \<open>Ranking and filtering\<close>

text \<open>\<^verbatim>\<open>rank_opportunities\<close> assigns \<^verbatim>\<open>opp['match_score']\<close> on the dictionaries of its
  argument list, so the dictionaries live in a store: a list of opportunities is a list
  of addresses, and the store maps an address to the dictionary's current content.\<close>

type_synonym addr = nat

type_synonym store = "addr \<Rightarrow> opportunity"

text \<open>The loop \<^verbatim>\<open>for opp in opportunities: opp['match_score'] = ...\<close>.\<close>

fun score_all :: "encoder \<Rightarrow> lowering \<Rightarrow> profile \<Rightarrow> store \<Rightarrow> addr list \<Rightarrow> error + store" where
  "score_all encode unicode_lower user_profile h [] = Inr h"
| "score_all encode unicode_lower user_profile h (a # rest) =
     bind_err (calculate_match_score encode unicode_lower (h a) user_profile) (\<lambda>s.
       score_all encode unicode_lower user_profile (h(a := (h a)\<lparr>opp_match_score := Some s\<rparr>)) rest)"

text \<open>\<^verbatim>\<open>sorted(xs, key=k, reverse=True)\<close>: a stable sort into descending key order.
  Elements are inserted from the right end of the input, each before the first element
  whose key is not greater, so that among equal keys the input order is kept.\<close>

fun insort_desc :: "('a \<Rightarrow> real) \<Rightarrow> 'a \<Rightarrow> 'a list \<Rightarrow> 'a list" where
  "insort_desc k x [] = [x]"
| "insort_desc k x (y # ys) = (if k y \<le> k x then x # y # ys else y # insort_desc k x ys)"

definition sorted_reverse :: "('a \<Rightarrow> real) \<Rightarrow> 'a list \<Rightarrow> 'a list" where
  "sorted_reverse k xs = foldr (insort_desc k) xs []"

text \<open>The sort key \<^verbatim>\<open>x['match_score']\<close>; the lookup raises KeyError on a dictionary
  without the key, which \<open>rank_opportunities\<close> tests before it sorts.\<close>

definition score_key :: "store \<Rightarrow> addr \<Rightarrow> real" where
  "score_key h a = (case opp_match_score (h a) of Some s \<Rightarrow> s | None \<Rightarrow> 0)"

text \<open>The result is the store after the assignments and the sorted list. The log line
  \<^verbatim>\<open>ranked[0]['match_score']\<close> after the sort raises IndexError on an empty list.\<close>

definition rank_opportunities ::
    "encoder \<Rightarrow> lowering \<Rightarrow> store \<Rightarrow> addr list \<Rightarrow> profile \<Rightarrow> error + (store \<times> addr list)" where
  "rank_opportunities encode unicode_lower h opportunities user_profile =
     bind_err (score_all encode unicode_lower user_profile h opportunities) (\<lambda>h'.
       if list_ex (\<lambda>a. opp_match_score (h' a) = None) opportunities then Inl KeyError
       else
         let ranked = sorted_reverse (score_key h') opportunities
         in case ranked of
              [] \<Rightarrow> Inl IndexError
            | best # _ \<Rightarrow> Inr (h', ranked))"

text \<open>\<^verbatim>\<open>xs[:n]\<close>: a negative bound counts from the end of the list.\<close>

definition slice_to :: "'a list \<Rightarrow> int \<Rightarrow> 'a list" where
  "slice_to xs n = (if 0 \<le> n then take (nat n) xs else take (length xs - nat (- n)) xs)"

text \<open>\<^verbatim>\<open>opp.get('match_score', 0)\<close>.\<close>

definition get_match_score :: "opportunity \<Rightarrow> real" where
  "get_match_score opp = (case opp_match_score opp of None \<Rightarrow> 0 | Some s \<Rightarrow> s)"

definition filter_opportunities :: "opportunity list \<Rightarrow> real \<Rightarrow> int \<Rightarrow> opportunity list" where
  "filter_opportunities opportunities min_score max_results =
     (let filtered = filter (\<lambda>opp. min_score \<le> get_match_score opp) opportunities
      in slice_to filtered max_results)"

section \<open>Profile construction\<close>

text \<open>\<^verbatim>\<open>user_data.get(k, default)\<close> on the raw user data.\<close>

fun ud_get :: "'a option \<Rightarrow> 'a \<Rightarrow> 'a" where
  "ud_get None d = d"
| "ud_get (Some v) d = v"

definition create_user_profile :: "encoder \<Rightarrow> user_data \<Rightarrow> profile" where
  "create_user_profile encode ud =
     (let profile = \<lparr>
            skills = ud_get (ud_skills ud) [],
            interests = ud_get (ud_interests ud) [],
            education_level = ud_get (ud_education ud) ''bachelor'',
            experience_years = ud_get (ud_experience ud) 0,
            preferred_locations = ud_get (ud_locations ud) [],
            preferred_types = ud_get (ud_types ud) [''job'', ''internship''],
            remote_only = ud_get (ud_remote_only ud) False,
            target_companies = ud_get (ud_companies ud) [],
            salary_min = ud_get (ud_salary_min ud) 0,
            key_words = ud_get (ud_keywords ud) [],
            skills_text = None,
            skills_embedding = None,
            interests_text = None,
            interests_embedding = None\<rparr>;
          profile =
            (if skills profile \<noteq> []
             then profile\<lparr>skills_text := Some (join '', '' (skills profile)),
                          skills_embedding := Some (encode (join '', '' (skills profile)))\<rparr>
             else profile);
          profile =
            (if interests profile \<noteq> []
             then profile\<lparr>interests_text := Some (join '', '' (interests profile)),
                          interests_embedding := Some (encode (join '', '' (interests profile)))\<rparr>
             else profile)
      in profile)"

section \<open>The filter operation as the specification words it\<close>

text \<open>Section 6 of the specification: \<^verbatim>\<open>filter(ranked, min_score, max_results)\<close> fails
  with InvalidInput if \<^verbatim>\<open>min_score\<close> is outside [0,100] or \<^verbatim>\<open>max_results < 0\<close>;
  otherwise (section 4.10) it keeps the records whose score reaches the threshold, in
  order, truncated to \<^verbatim>\<open>max_results\<close> items. This definition follows those words, for
  comparison with \<open>filter_opportunities\<close>.\<close>

datatype spec_error = InvalidInput

definition filter_spec :: "opportunity list \<Rightarrow> real \<Rightarrow> int \<Rightarrow> spec_error + opportunity list" where
  "filter_spec ranked min_score max_results =
     (if min_score < 0 \<or> 100 < min_score \<or> max_results < 0 then Inl InvalidInput
      else Inr (take (nat max_results) (filter (\<lambda>opp. min_score \<le> get_match_score opp) ranked)))"

section \<open>Case-insensitive comparison as the specification words it\<close>

text \<open>Section 4.3 of the specification calls the location test a case-insensitive
  substring match. Two characters agree up to case when they are equal or are the
  upper-case and the lower-case form of the same letter.\<close>

definition ascii_upper :: string where
  "ascii_upper = ''ABCDEFGHIJKLMNOPQRSTUVWXYZ''"

definition ascii_lower :: string where
  "ascii_lower = ''abcdefghijklmnopqrstuvwxyz''"

definition same_ignoring_case :: "char \<Rightarrow> char \<Rightarrow> bool" where
  "same_ignoring_case c d =
     (c = d \<or> (c, d) \<in> set (zip ascii_upper ascii_lower)
            \<or> (d, c) \<in> set (zip ascii_upper ascii_lower))"

section \<open>Sample inputs\<close>

text \<open>The sample texts are all ASCII, where the lowering of text beyond ASCII is never
  consulted; the samples pass one that returns such text as it is.\<close>

definition plain_lower :: lowering where
  "plain_lower s = s"

text \<open>An embedding model that maps every text to the same unit vector.\<close>

definition unit_encoder :: encoder where
  "unit_encoder text = [1]"

text \<open>A record with the two required fields only.\<close>

definition demo_opportunity :: opportunity where
  "demo_opportunity = \<lparr>
     opp_title = Present ''Developer'',
     opp_company = Present ''Acme'',
     opp_type = Absent,
     opp_location = Absent,
     opp_remote = Absent,
     opp_description = Absent,
     opp_requirements = Absent,
     opp_skills = Absent,
     opp_compensation = Absent,
     opp_is_still_open = Absent,
     opp_match_score = None\<rparr>"

definition analyst_opportunity :: opportunity where
  "analyst_opportunity = demo_opportunity\<lparr>opp_title := Present ''Analyst''\<rparr>"

definition remote_opportunity :: opportunity where
  "remote_opportunity = demo_opportunity\<lparr>opp_remote := Present True\<rparr>"

definition austin_opportunity :: opportunity where
  "austin_opportunity = demo_opportunity\<lparr>opp_location := Present ''Austin, TX''\<rparr>"

definition python_opportunity :: opportunity where
  "python_opportunity = demo_opportunity\<lparr>opp_skills := Present [''python'']\<rparr>"

definition closed_opportunity :: opportunity where
  "closed_opportunity = demo_opportunity\<lparr>opp_is_still_open := Present False\<rparr>"

text \<open>The shape the crawlers emit: the description key is there and holds \<^verbatim>\<open>None\<close>.\<close>

definition crawled_opportunity :: opportunity where
  "crawled_opportunity = demo_opportunity\<lparr>opp_description := Null\<rparr>"

definition empty_user_data :: user_data where
  "empty_user_data = \<lparr>
     ud_skills = None,
     ud_interests = None,
     ud_education = None,
     ud_experience = None,
     ud_locations = None,
     ud_types = None,
     ud_remote_only = None,
     ud_companies = None,
     ud_salary_min = None,
     ud_keywords = None\<rparr>"

definition default_profile :: profile where
  "default_profile = create_user_profile unit_encoder empty_user_data"

definition keyword_profile :: profile where
  "keyword_profile = create_user_profile unit_encoder (empty_user_data\<lparr>ud_keywords := Some [''ai'']\<rparr>)"

definition python_profile :: profile where
  "python_profile = create_user_profile unit_encoder (empty_user_data\<lparr>ud_skills := Some [''Python'']\<rparr>)"

definition austin_profile :: profile where
  "austin_profile = create_user_profile unit_encoder (empty_user_data\<lparr>ud_locations := Some [''AUSTIN'']\<rparr>)"

text \<open>A store with \<open>remote_opportunity\<close> at address 20 and \<open>demo_opportunity\<close>
  everywhere else.\<close>

definition demo_store :: store where
  "demo_store = (\<lambda>a. demo_opportunity)(20 := remote_opportunity)"

text \<open>A record that already carries a score.\<close>

definition scored_opportunity :: opportunity where
  "scored_opportunity = demo_opportunity\<lparr>opp_match_score := Some 80\<rparr>"

text \<open>The stores that ranking leaves behind on the sample inputs.\<close>

definition scored_store :: store where
  "scored_store = demo_store(10 := demo_opportunity\<lparr>opp_match_score := Some 27.5\<rparr>)"

definition ranked_store :: store where
  "ranked_store = demo_store
     (10 := demo_opportunity\<lparr>opp_match_score := Some 27.5\<rparr>,
      20 := remote_opportunity\<lparr>opp_match_score := Some 41.5\<rparr>,
      30 := demo_opportunity\<lparr>opp_match_score := Some 27.5\<rparr>)"

section \<open>Auxiliary facts\<close>

subsection \<open>Cosine similarity is at most one\<close>

lemma sum_sq_nonneg: "0 \<le> sum_list (map (\<lambda>a. a * a) (v::real list))"
  by (induction v) auto

lemma cross_bound:
  fixes A B D x y :: real
  assumes "D\<^sup>2 \<le> A * B" "0 \<le> A" "0 \<le> B"
  shows "2 * D * (x * y) \<le> A * y\<^sup>2 + B * x\<^sup>2"
proof -
  define u where "u = sqrt A * \<bar>y\<bar>"
  define w where "w = sqrt B * \<bar>x\<bar>"
  have "sqrt (D\<^sup>2) \<le> sqrt (A * B)"
    using assms(1) by (rule real_sqrt_le_mono)
  then have D: "\<bar>D\<bar> \<le> sqrt A * sqrt B"
    by (simp add: real_sqrt_mult)
  have "D * (x * y) \<le> \<bar>D * (x * y)\<bar>"
    by (rule abs_ge_self)
  then have "2 * D * (x * y) \<le> 2 * \<bar>D\<bar> * \<bar>x * y\<bar>"
    by (simp add: abs_mult)
  also have "\<dots> \<le> 2 * (sqrt A * sqrt B) * \<bar>x * y\<bar>"
    using D by (intro mult_right_mono mult_left_mono) auto
  also have "\<dots> = 2 * u * w"
    by (simp add: u_def w_def abs_mult)
  also have "\<dots> \<le> u\<^sup>2 + w\<^sup>2"
    using zero_le_power2 [of "u - w"] by (simp add: power2_diff)
  also have "\<dots> = A * y\<^sup>2 + B * x\<^sup>2"
    using assms(2,3) by (simp add: u_def w_def power_mult_distrib)
  finally show ?thesis .
qed

lemma cauchy_step:
  fixes A B D x y :: real
  assumes "D\<^sup>2 \<le> A * B" "0 \<le> A" "0 \<le> B"
  shows "(x * y + D)\<^sup>2 \<le> (x * x + A) * (y * y + B)"
proof -
  have "(x * y + D)\<^sup>2 = D\<^sup>2 + 2 * D * (x * y) + (x * y)\<^sup>2"
    by (simp add: power2_eq_square algebra_simps)
  also have "\<dots> \<le> A * B + (A * y\<^sup>2 + B * x\<^sup>2) + (x * y)\<^sup>2"
    using assms(1) cross_bound [OF assms, of x y] by linarith
  also have "\<dots> = (x * x + A) * (y * y + B)"
    by (simp add: algebra_simps power2_eq_square)
  finally show ?thesis .
qed

lemma cauchy_schwarz_list:
  "length v1 = length v2 \<Longrightarrow>
   (sum_list (map (\<lambda>(a, b). a * b) (zip v1 v2)))\<^sup>2
     \<le> sum_list (map (\<lambda>a. a * a) v1) * sum_list (map (\<lambda>a. a * a) (v2::real list))"
proof (induction v1 v2 rule: list_induct2)
  case Nil
  then show ?case by simp
next
  case (Cons x xs y ys)
  then show ?case
    using cauchy_step [OF Cons.IH sum_sq_nonneg sum_sq_nonneg, of x y] by simp
qed

lemma cosine_le_one:
  assumes "dot v1 v2 = Inr d" 
  shows "d \<le> linalg_norm v1 * linalg_norm v2"
proof -
  from assms have len: "length v1 = length v2"
    and d: "d = sum_list (map (\<lambda>(a, b). a * b) (zip v1 v2))"
    by (auto simp: dot_def split: if_splits)
  have "sqrt (d\<^sup>2) \<le> sqrt (sum_list (map (\<lambda>a. a * a) v1) * sum_list (map (\<lambda>a. a * a) v2))"
    unfolding d by (rule real_sqrt_le_mono) (rule cauchy_schwarz_list [OF len])
  then have "\<bar>d\<bar> \<le> linalg_norm v1 * linalg_norm v2"
    by (simp add: linalg_norm_def real_sqrt_mult)
  then show ?thesis by linarith
qed

subsection \<open>Substring test and loops over candidate strings\<close>

lemma starts_with_iff: "starts_with s sub \<longleftrightarrow> (\<exists>suf. s = sub @ suf)"
  by (induction s sub rule: starts_with.induct) auto

lemma str_in_iff: "str_in sub s \<longleftrightarrow> (\<exists>pre suf. s = pre @ sub @ suf)"
proof (induction s)
  case Nil
  then show ?case by auto
next
  case (Cons d s)
  have "(\<exists>pre suf. d # s = pre @ sub @ suf) \<longleftrightarrow>
        (\<exists>suf. d # s = sub @ suf) \<or> (\<exists>pre suf. s = pre @ sub @ suf)"
  proof
    assume "\<exists>pre suf. d # s = pre @ sub @ suf"
    then obtain pre suf where eq: "d # s = pre @ sub @ suf" by blast
    show "(\<exists>suf. d # s = sub @ suf) \<or> (\<exists>pre suf. s = pre @ sub @ suf)"
    proof (cases pre)
      case Nil
      with eq show ?thesis by auto
    next
      case (Cons p ps)
      with eq have "s = ps @ sub @ suf" by simp
      then show ?thesis by blast
    qed
  next
    assume "(\<exists>suf. d # s = sub @ suf) \<or> (\<exists>pre suf. s = pre @ sub @ suf)"
    then show "\<exists>pre suf. d # s = pre @ sub @ suf"
    proof
      assume "\<exists>suf. d # s = sub @ suf"
      then obtain suf where "d # s = [] @ sub @ suf" by auto
      then show ?thesis by blast
    next
      assume "\<exists>pre suf. s = pre @ sub @ suf"
      then obtain pre suf where "d # s = (d # pre) @ sub @ suf" by auto
      then show ?thesis by blast
    qed
  qed
  then show ?case
    using Cons.IH by (simp add: starts_with_iff)
qed

lemma loop_hit_iff: "loop_hit prefs text \<longleftrightarrow> (\<exists>p\<in>set prefs. str_in p text)"
  by (induction prefs) auto

subsection \<open>Lower-casing of ASCII text\<close>

lemma letter_pairs:
  "map (\<lambda>m. (char_of m, char_of (m + 32))) [65 ..< 91 :: nat] = zip ascii_upper ascii_lower"
  by (simp add: upt_rec_numeral ascii_upper_def ascii_lower_def char_of_eq_iff)

lemma pair_iff:
  "(c, d) \<in> set (zip ascii_upper ascii_lower) \<longleftrightarrow>
     65 \<le> (of_char c :: nat) \<and> (of_char c :: nat) \<le> 90 \<and> (of_char d :: nat) = of_char c + 32"
  (is "?L = ?R")
proof
  assume ?L
  then obtain m :: nat where m: "65 \<le> m" "m < 91" and c: "c = char_of m" and d: "d = char_of (m + 32)"
    unfolding letter_pairs [symmetric] by auto
  from m show ?R unfolding c d by simp
next
  assume r: ?R
  define m where "m = (of_char c :: nat)"
  have c: "c = char_of m"
    by (simp add: m_def)
  have "d = char_of (of_char d :: nat)" by simp
  with r have d: "d = char_of (m + 32)" by (simp add: m_def)
  from r have "m \<in> set [65 ..< 91]" by (simp add: m_def del: upt_rec_numeral)
  then have "(char_of m, char_of (m + 32)) \<in> (\<lambda>m. (char_of m, char_of (m + 32))) ` set [65 ..< 91]"
    by (rule imageI)
  then have "(char_of m, char_of (m + 32)) \<in> set (map (\<lambda>m. (char_of m, char_of (m + 32))) [65 ..< 91])"
    by (simp only: set_map)
  then have "(char_of m, char_of (m + 32)) \<in> set (zip ascii_upper ascii_lower)"
    by (simp only: letter_pairs)
  then show ?L unfolding c d .
qed

lemma lower_char_code:
  "(of_char (lower_char c) :: nat) =
     (if 65 \<le> (of_char c :: nat) \<and> (of_char c :: nat) \<le> 90 then of_char c + 32 else of_char c)"
  by (simp add: lower_char_def Let_def)

lemma lower_char_eq_iff: "lower_char c = lower_char d \<longleftrightarrow> same_ignoring_case c d"
proof -
  have "lower_char c = lower_char d \<longleftrightarrow>
        (of_char (lower_char c) :: nat) = of_char (lower_char d)"
    by (simp only: of_char_eq_iff)
  also have "\<dots> \<longleftrightarrow> same_ignoring_case c d"
    unfolding same_ignoring_case_def pair_iff lower_char_code
    using of_char_eq_iff [of c d, where ?'a = nat] by auto
  finally show ?thesis .
qed

lemma map_lower_eq_iff:
  "map lower_char xs = map lower_char ys \<longleftrightarrow> list_all2 same_ignoring_case xs ys"
proof -
  have "map lower_char xs = map lower_char ys \<longleftrightarrow>
        list_all2 (=) (map lower_char xs) (map lower_char ys)"
    by (simp add: list.rel_eq)
  also have "\<dots> \<longleftrightarrow> list_all2 (\<lambda>c d. lower_char c = lower_char d) xs ys"
    by (simp add: list.rel_map)
  finally show ?thesis by (simp add: lower_char_eq_iff)
qed

lemma folded_substring_iff:
  "(\<exists>pre suf. map lower_char s = pre @ map lower_char sub @ suf) \<longleftrightarrow>
   (\<exists>pre mid suf. s = pre @ mid @ suf \<and> list_all2 same_ignoring_case sub mid)"
  (is "?L = ?R")
proof
  assume ?L
  then obtain pre suf where "map lower_char s = pre @ map lower_char sub @ suf" by blast
  then obtain a r where s1: "s = a @ r" and "pre = map lower_char a"
      and r: "map lower_char sub @ suf = map lower_char r"
    by (auto simp: map_eq_append_conv)
  from r obtain b c where r2: "r = b @ c" and b: "map lower_char sub = map lower_char b"
    by (auto simp: append_eq_map_conv)
  from b have "list_all2 same_ignoring_case sub b" by (simp add: map_lower_eq_iff)
  with s1 r2 show ?R by blast
next
  assume ?R
  then obtain pre mid suf where s: "s = pre @ mid @ suf"
    and m: "list_all2 same_ignoring_case sub mid" by blast
  from m have "map lower_char mid = map lower_char sub"
    by (simp add: map_lower_eq_iff [symmetric])
  with s have "map lower_char s = map lower_char pre @ map lower_char sub @ map lower_char suf"
    by simp
  then show ?L by blast
qed

lemma lower_ascii: "list_all is_ascii s \<Longrightarrow> lower ulower s = map lower_char s"
  by (simp add: lower_def)

lemma lower_beyond_ascii: "\<not> list_all is_ascii s \<Longrightarrow> lower ulower s = ulower s"
  by (simp add: lower_def)

subsection \<open>The descending stable sort\<close>

lemma set_insort_desc: "set (insort_desc k x xs) = insert x (set xs)"
  by (induction xs) auto

lemma sorted_insort_desc:
  "sorted_wrt (\<lambda>a b. k b \<le> k a) xs \<Longrightarrow> sorted_wrt (\<lambda>a b. k b \<le> k a) (insort_desc k x xs)"
  by (induction xs) (auto simp: set_insort_desc)

lemma sorted_sorted_reverse: "sorted_wrt (\<lambda>a b. k b \<le> k a) (sorted_reverse k xs)"
  unfolding sorted_reverse_def by (induction xs) (auto simp: sorted_insort_desc)

lemma filter_insort_desc_neg:
  "\<not> P x \<Longrightarrow> filter P (insort_desc k x xs) = filter P xs"
  by (induction xs) auto

lemma filter_insort_desc_pos:
  "sorted_wrt (\<lambda>a b. k b \<le> k a) xs \<Longrightarrow>
   filter (\<lambda>y. k y = k x) (insort_desc k x xs) = x # filter (\<lambda>y. k y = k x) xs"
  by (induction xs) (auto)

lemma sorted_reverse_stable:
  "filter (\<lambda>y. k y = v) (sorted_reverse k xs) = filter (\<lambda>y. k y = v) xs"
proof (induction xs)
  case Nil
  then show ?case by (simp add: sorted_reverse_def)
next
  case (Cons x xs)
  have step: "sorted_reverse k (x # xs) = insort_desc k x (sorted_reverse k xs)"
    by (simp add: sorted_reverse_def)
  show ?case
  proof (cases "k x = v")
    case True
    then show ?thesis
      using filter_insort_desc_pos [OF sorted_sorted_reverse, of k x xs] Cons.IH
      by (simp add: step)
  next
    case False
    then show ?thesis
      using Cons.IH by (simp add: step filter_insort_desc_neg)
  qed
qed

lemma mset_insort_desc: "mset (insort_desc k x xs) = add_mset x (mset xs)"
  by (induction xs) auto

lemma mset_sorted_reverse: "mset (sorted_reverse k xs) = mset xs"
  unfolding sorted_reverse_def by (induction xs) (auto simp: mset_insort_desc)

subsection \<open>Ranges of the factor scores\<close>

lemma bind_err_Inr_iff: "bind_err m f = Inr y \<longleftrightarrow> (\<exists>x. m = Inr x \<and> f x = Inr y)"
  by (cases m) auto

lemma match_location_range: "0 \<le> match_location ulower opp prof \<and> match_location ulower opp prof \<le> 100"
  by (simp add: match_location_def Let_def)

lemma match_type_range: "0 \<le> match_type ulower opp prof \<and> match_type ulower opp prof \<le> 100"
  by (simp add: match_type_def Let_def)

lemma match_company_range: "0 \<le> match_company ulower opp prof \<and> match_company ulower opp prof \<le> 100"
  by (simp add: match_company_def Let_def)

lemma match_experience_range:
  "match_experience ulower opp prof = Inr x \<Longrightarrow> 0 \<le> x \<and> x \<le> 100"
  by (auto simp: match_experience_def Let_def split: option.splits if_splits)

lemma keyword_ratio_range:
  fixes kws :: "string list"
  assumes "kws \<noteq> []"
  shows "0 \<le> real (length (filter P kws)) / real (length kws) * 100"
    and "real (length (filter P kws)) / real (length kws) * 100 \<le> 100"
proof -
  have pos: "0 < real (length kws)" using assms by simp
  have le: "real (length (filter P kws)) \<le> real (length kws)" by simp
  show "real (length (filter P kws)) / real (length kws) * 100 \<le> 100"
    using pos le by (simp add: field_simps)
  show "0 \<le> real (length (filter P kws)) / real (length kws) * 100" by simp
qed

lemma match_keywords_range:
  assumes "match_keywords ulower opp prof = Inr x"
  shows "0 \<le> x \<and> x \<le> 100"
proof (cases "key_words prof = []")
  case True
  with assms show ?thesis by (simp add: match_keywords_def)
next
  case False
  then have ne: "map (lower ulower) (key_words prof) \<noteq> []" by simp
  from assms False obtain t d sk where
    x: "x = real (length (filter (\<lambda>kw. str_in kw (lower ulower (join '' '' [t, d, join '' '' sk])))
              (map (lower ulower) (key_words prof)))) / real (length (map (lower ulower) (key_words prof))) * 100"
    by (auto simp: match_keywords_def Let_def split: option.splits if_splits)
  show ?thesis
    unfolding x using keyword_ratio_range [OF ne] by blast
qed

lemma linalg_norm_nonneg: "0 \<le> linalg_norm v"
  by (simp add: linalg_norm_def sum_sq_nonneg)

lemma skill_score_range:
  assumes "cosine_similarity v1 v2 = Inr sim"
  shows "0 \<le> skill_score_of sim \<and> skill_score_of sim \<le> 100"
proof (cases sim)
  case None
  then show ?thesis by simp
next
  case (Some s)
  from assms Some obtain d where d: "dot v1 v2 = Inr d"
    and n: "linalg_norm v1 * linalg_norm v2 \<noteq> 0"
    and s: "s = d / (linalg_norm v1 * linalg_norm v2)"
    by (auto simp: cosine_similarity_def bind_err_Inr_iff Let_def split: if_splits)
  have "0 \<le> linalg_norm v1 * linalg_norm v2"
    by (simp add: linalg_norm_nonneg)
  with n have pos: "0 < linalg_norm v1 * linalg_norm v2" by linarith
  have "s \<le> 1"
    unfolding s using cosine_le_one [OF d] pos by (simp add: divide_le_eq)
  then show ?thesis using Some by simp
qed

lemma skill_factor_cases:
  assumes "skill_factor encode opp prof = Inr (sc, ws)"
  shows "(sc = [] \<and> ws = []) \<or> (\<exists>s. sc = [s] \<and> ws = [0.40] \<and> 0 \<le> s \<and> s \<le> 100)"
  using assms
  by (auto simp: skill_factor_def Let_def bind_err_Inr_iff
           split: field.splits option.splits if_splits dest: skill_score_range)

lemma weighted_total_expand:
  assumes "weighted_total encode ulower opp prof = Inr t"
  shows "\<exists>sc ws ex kw.
           skill_factor encode opp prof = Inr (sc, ws) \<and>
           match_experience ulower opp prof = Inr ex \<and>
           match_keywords ulower opp prof = Inr kw \<and>
           t = sum_list (map (\<lambda>(s, w). s * w)
                 (zip (sc @ [match_location ulower opp prof, match_type ulower opp prof, ex,
                             match_company ulower opp prof, kw])
                      (ws @ [0.20, 0.15, 0.10, 0.10, 0.05])))"
  using assms
  by (auto simp: weighted_total_def Let_def bind_err_Inr_iff)

lemma weighted_total_range:
  assumes "weighted_total encode ulower opp prof = Inr t"
  shows "0 \<le> t \<and> t \<le> 100"
proof -
  from weighted_total_expand [OF assms] obtain sc ws ex kw where
    sf: "skill_factor encode opp prof = Inr (sc, ws)" and
    ex: "match_experience ulower opp prof = Inr ex" and
    kw: "match_keywords ulower opp prof = Inr kw" and
    t: "t = sum_list (map (\<lambda>(s, w). s * w)
                 (zip (sc @ [match_location ulower opp prof, match_type ulower opp prof, ex,
                             match_company ulower opp prof, kw])
                      (ws @ [0.20, 0.15, 0.10, 0.10, 0.05])))"
    by blast
  note b = match_location_range [of ulower opp prof] match_type_range [of ulower opp prof]
    match_company_range [of ulower opp prof] match_experience_range [OF ex] match_keywords_range [OF kw]
  from skill_factor_cases [OF sf] show ?thesis
  proof
    assume "sc = [] \<and> ws = []"
    then show ?thesis using b by (simp add: t)
  next
    assume "\<exists>s. sc = [s] \<and> ws = [0.40] \<and> 0 \<le> s \<and> s \<le> 100"
    then obtain s where "sc = [s]" "ws = [0.40]" "0 \<le> s" "s \<le> 100" by blast
    then show ?thesis using b by (simp add: t)
  qed
qed

subsection \<open>Reading fields\<close>

lemma truthy_iff: "truthy f \<longleftrightarrow> f = Present True"
  by (cases f) auto

lemma get_or_string: "get_or f [] = (case f of Present s \<Rightarrow> s | _ \<Rightarrow> [])"
  by (cases f) auto

lemma apply_modifiers_eq:
  "apply_modifiers base opp prof = (if is_closed (opp_is_still_open opp) then base * 0.5 else base)"
  by (simp add: apply_modifiers_def)

subsection \<open>When the score is returned\<close>

text \<open>The score computation returns, with a value in [0,100], whenever the requirements
  are not \<^verbatim>\<open>None\<close>, the fields read by the keyword scorer are not \<^verbatim>\<open>None\<close> (or the
  profile has no keywords) and the embedding model produces vectors of the dimension of
  the profile's skills embedding, as it does for a profile built with the same model.\<close>

lemma match_experience_returns:
  assumes "opp_requirements opp \<noteq> Null"
  shows "\<exists>x. match_experience ulower opp prof = Inr x"
  using assms by (cases "opp_requirements opp") (simp_all add: match_experience_def Let_def)

lemma match_keywords_returns:
  assumes "key_words prof = [] \<or>
           (opp_title opp \<noteq> Null \<and> opp_description opp \<noteq> Null \<and> opp_skills opp \<noteq> Null)"
  shows "\<exists>x. match_keywords ulower opp prof = Inr x"
proof (cases "key_words prof = []")
  case True
  then show ?thesis by (simp add: match_keywords_def)
next
  case False
  with assms have "opp_title opp \<noteq> Null" "opp_description opp \<noteq> Null" "opp_skills opp \<noteq> Null"
    by auto
  then obtain t d sk where
    "get_default [] (opp_title opp) = Some t"
    "get_default [] (opp_description opp) = Some d"
    "get_default [] (opp_skills opp) = Some sk"
    by (cases "opp_title opp"; cases "opp_description opp"; cases "opp_skills opp") auto
  with False show ?thesis by (simp add: match_keywords_def Let_def)
qed

lemma cosine_similarity_returns:
  assumes "length v1 = length v2"
  shows "\<exists>sim. cosine_similarity v1 v2 = Inr sim"
  using assms by (simp add: cosine_similarity_def dot_def Let_def)

lemma skill_factor_returns:
  assumes "\<And>emb text. skills_embedding prof = Some emb \<Longrightarrow> length (encode text) = length emb"
  shows "\<exists>sc ws. skill_factor encode opp prof = Inr (sc, ws)"
proof (cases "opp_skills opp")
  case (Present sk)
  show ?thesis
  proof (cases "skills_embedding prof")
    case None
    with Present show ?thesis by (simp add: skill_factor_def)
  next
    case (Some emb)
    from assms [OF Some] cosine_similarity_returns
    obtain sim where "cosine_similarity (encode (join '', '' sk)) emb = Inr sim" by blast
    with Present Some show ?thesis by (simp add: skill_factor_def Let_def)
  qed
qed (simp_all add: skill_factor_def)

lemma calculate_match_score_returns:
  assumes "opp_requirements opp \<noteq> Null"
    and "key_words prof = [] \<or>
         (opp_title opp \<noteq> Null \<and> opp_description opp \<noteq> Null \<and> opp_skills opp \<noteq> Null)"
    and "\<And>emb text. skills_embedding prof = Some emb \<Longrightarrow> length (encode text) = length emb"
  shows "\<exists>s. calculate_match_score encode ulower opp prof = Inr s \<and> 0 \<le> s \<and> s \<le> 100"
proof -
  from skill_factor_returns [of prof encode opp] assms(3)
  obtain sc ws where sf: "skill_factor encode opp prof = Inr (sc, ws)" by blast
  from match_experience_returns [OF assms(1)]
  obtain ex where ex: "match_experience ulower opp prof = Inr ex" by blast
  from match_keywords_returns [OF assms(2)]
  obtain kw where kw: "match_keywords ulower opp prof = Inr kw" by blast
  have "\<exists>t. weighted_total encode ulower opp prof = Inr t"
    by (simp add: weighted_total_def sf ex kw Let_def)
  then obtain t where t: "weighted_total encode ulower opp prof = Inr t" by blast
  then show ?thesis by (simp add: calculate_match_score_def)
qed

lemma built_profile_dimension:
  assumes "\<And>a b. length (encode a) = length (encode b)"
    and "skills_embedding (create_user_profile encode ud) = Some emb"
  shows "length (encode text) = length emb"
proof -
  from assms(2) have "emb = encode (join '', '' (ud_get (ud_skills ud) []))"
    by (auto simp: create_user_profile_def Let_def split: if_splits)
  then show ?thesis using assms(1) by simp
qed

lemma score_in_range_for_built_profile:
  assumes "\<And>a b. length (encode a) = length (encode b)"
    and "opp_requirements opp \<noteq> Null"
    and "key_words (create_user_profile encode ud) = [] \<or>
         (opp_title opp \<noteq> Null \<and> opp_description opp \<noteq> Null \<and> opp_skills opp \<noteq> Null)"
  shows "\<exists>s. calculate_match_score encode ulower opp (create_user_profile encode ud) = Inr s
             \<and> 0 \<le> s \<and> s \<le> 100"
proof (rule calculate_match_score_returns [OF assms(2,3)])
  fix emb str
  assume "skills_embedding (create_user_profile encode ud) = Some emb"
  then show "length (encode str) = length emb"
    using built_profile_dimension [of encode ud emb str] assms(1) by blast
qed

section \<open>The score on a record whose description is \<^verbatim>\<open>None\<close>\<close>

lemma crawled_keywords: "match_keywords plain_lower crawled_opportunity keyword_profile = Inl TypeError"
  by code_simp

lemma crawled_experience: "match_experience plain_lower crawled_opportunity keyword_profile = Inr 50"
  by code_simp

lemma crawled_skill: "skill_factor unit_encoder crawled_opportunity keyword_profile = Inr ([], [])"
  by (simp add: skill_factor_def crawled_opportunity_def demo_opportunity_def)

text \<open>
  Claim C1 says that \<^verbatim>\<open>score(opportunity, profile)\<close> never fails and that missing
  optional fields of the opportunity degrade to neutral or zero factor scores. The
  description is an optional string; on a record that stores \<^verbatim>\<open>None\<close> for it, scored
  against a profile built by \<open>create_user_profile\<close> from user data with one keyword,
  \<^verbatim>\<open>_match_keywords\<close> passes the \<^verbatim>\<open>None\<close> to \<^verbatim>\<open>' '.join\<close> and the score computation
  raises TypeError. (\<^verbatim>\<open>_match_experience\<close> reads the same field with
  \<^verbatim>\<open>get('description') or ''\<close> and does not fail on it.)
\<close>

theorem score_raises_on_null_description:
  "calculate_match_score unit_encoder plain_lower crawled_opportunity keyword_profile = Inl TypeError"
  by (simp add: calculate_match_score_def weighted_total_def crawled_skill
        crawled_experience crawled_keywords)

section \<open>Ranking an empty list\<close>

text \<open>
  Claim C5 says that ranking never raises for valid inputs, the empty list included. On
  the empty list the log line after the sort reads \<^verbatim>\<open>ranked[0]\<close> and raises IndexError,
  whatever the profile, the store and the embedding model are.
\<close>

theorem rank_empty_list_raises:
  "rank_opportunities encode ulower h [] prof = Inl IndexError"
  by (simp add: rank_opportunities_def sorted_reverse_def)

section \<open>The location factor\<close>

text \<open>
  Claim C8: the location factor is decided by ordered checks. It is 100 if the profile is
  remote-only and the opportunity is remote; else 100 if some preferred location,
  lower-cased, is a substring of the opportunity's lower-cased location (a missing or
  \<^verbatim>\<open>None\<close> location counts as the empty string); else 70 if the opportunity is remote;
  else 0. The remote-only test comes first. Lower-casing makes the substring test
  case-insensitive: on ASCII text a preferred location matches exactly when it occurs
  in the location up to the case of its letters.
\<close>

theorem location_factor_ordered_checks:
  "match_location ulower opp prof =
     (if remote_only prof \<and> opp_remote opp = Present True then 100
      else if \<exists>pref\<in>set (preferred_locations prof). \<exists>pre suf.
                lower ulower (case opp_location opp of Present s \<Rightarrow> s | _ \<Rightarrow> [])
                  = pre @ lower ulower pref @ suf
           then 100
      else if opp_remote opp = Present True then 70
      else 0)
   \<and> (list_all is_ascii (case opp_location opp of Present s \<Rightarrow> s | _ \<Rightarrow> []) \<and>
      list_all (list_all is_ascii) (preferred_locations prof) \<longrightarrow>
        match_location ulower opp prof =
          (if remote_only prof \<and> opp_remote opp = Present True then 100
           else if \<exists>pref\<in>set (preferred_locations prof). \<exists>pre mid suf.
                     (case opp_location opp of Present s \<Rightarrow> s | _ \<Rightarrow> []) = pre @ mid @ suf \<and>
                     list_all2 same_ignoring_case pref mid
                then 100
           else if opp_remote opp = Present True then 70
           else 0))"
proof -
  let ?loc = "case opp_location opp of Present s \<Rightarrow> s | _ \<Rightarrow> []"
  have checks: "match_location ulower opp prof =
     (if remote_only prof \<and> opp_remote opp = Present True then 100
      else if \<exists>pref\<in>set (preferred_locations prof). \<exists>pre suf.
                lower ulower ?loc = pre @ lower ulower pref @ suf
           then 100
      else if opp_remote opp = Present True then 70
      else 0)"
    by (simp add: match_location_def Let_def truthy_iff loop_hit_iff str_in_iff get_or_string)
  have folded: "(\<exists>pref\<in>set (preferred_locations prof). \<exists>pre suf.
                   lower ulower ?loc = pre @ lower ulower pref @ suf)
                = (\<exists>pref\<in>set (preferred_locations prof). \<exists>pre mid suf.
                     ?loc = pre @ mid @ suf \<and> list_all2 same_ignoring_case pref mid)"
    if ascii: "list_all is_ascii ?loc \<and> list_all (list_all is_ascii) (preferred_locations prof)"
  proof -
    from ascii have loc: "lower ulower ?loc = map lower_char ?loc"
      by (simp add: lower_ascii)
    have pref: "lower ulower pref = map lower_char pref" if "pref \<in> set (preferred_locations prof)" for pref
      using ascii that by (simp add: lower_ascii list_all_iff)
    have "(\<exists>pref\<in>set (preferred_locations prof). \<exists>pre suf.
                   lower ulower ?loc = pre @ lower ulower pref @ suf)
          = (\<exists>pref\<in>set (preferred_locations prof). \<exists>pre suf.
                   map lower_char ?loc = pre @ map lower_char pref @ suf)"
      unfolding loc using pref by (intro bex_cong refl) simp
    then show ?thesis by (simp only: folded_substring_iff)
  qed
  show ?thesis
  proof (intro conjI impI)
    show "match_location ulower opp prof =
     (if remote_only prof \<and> opp_remote opp = Present True then 100
      else if \<exists>pref\<in>set (preferred_locations prof). \<exists>pre suf.
                lower ulower ?loc = pre @ lower ulower pref @ suf
           then 100
      else if opp_remote opp = Present True then 70
      else 0)"
      by (rule checks)
  next
    assume "list_all is_ascii ?loc \<and> list_all (list_all is_ascii) (preferred_locations prof)"
    then show "match_location ulower opp prof =
          (if remote_only prof \<and> opp_remote opp = Present True then 100
           else if \<exists>pref\<in>set (preferred_locations prof). \<exists>pre mid suf.
                     ?loc = pre @ mid @ suf \<and> list_all2 same_ignoring_case pref mid
                then 100
           else if opp_remote opp = Present True then 70
           else 0)"
      by (simp only: checks folded)
  qed
qed

lemma austin_prefs: "preferred_locations austin_profile = [''AUSTIN'']"
  by (simp add: austin_profile_def create_user_profile_def empty_user_data_def)

lemma austin_flags: "\<not> remote_only austin_profile"
  by (simp add: austin_profile_def create_user_profile_def empty_user_data_def)

lemma austin_location: "opp_location austin_opportunity = Present ''Austin, TX''"
  by (simp add: austin_opportunity_def)

lemma austin_ascii:
  "list_all is_ascii ''Austin, TX''" "list_all (list_all is_ascii) [''AUSTIN'']"
  by code_simp+

lemma austin_same: "list_all2 same_ignoring_case ''AUSTIN'' ''Austin''"
  by code_simp

theorem location_factor_ordered_checks_witness:
  "opp_location austin_opportunity = Present ''Austin, TX''
   \<and> preferred_locations austin_profile = [''AUSTIN'']
   \<and> list_all is_ascii ''Austin, TX''
   \<and> list_all (list_all is_ascii) [''AUSTIN'']
   \<and> ''Austin, TX'' = [] @ ''Austin'' @ '', TX''
   \<and> list_all2 same_ignoring_case ''AUSTIN'' ''Austin''
   \<and> match_location plain_lower austin_opportunity austin_profile = 100"
proof -
  have hit: "\<exists>pre mid suf. ''Austin, TX'' = pre @ mid @ suf \<and> list_all2 same_ignoring_case ''AUSTIN'' mid"
    using austin_same by (intro exI [of _ "[]"] exI [of _ "''Austin''"] exI [of _ "'', TX''"]) simp
  have ascii: "list_all is_ascii (case opp_location austin_opportunity of Present s \<Rightarrow> s | _ \<Rightarrow> [])
                 \<and> list_all (list_all is_ascii) (preferred_locations austin_profile)"
    unfolding austin_prefs austin_location using austin_ascii by simp
  have found: "\<exists>pref\<in>set (preferred_locations austin_profile). \<exists>pre mid suf.
                 (case opp_location austin_opportunity of Present s \<Rightarrow> s | _ \<Rightarrow> []) = pre @ mid @ suf
                 \<and> list_all2 same_ignoring_case pref mid"
    unfolding austin_prefs austin_location using hit by simp
  from location_factor_ordered_checks [of plain_lower austin_opportunity austin_profile] ascii
  have "match_location plain_lower austin_opportunity austin_profile =
          (if remote_only austin_profile \<and> opp_remote austin_opportunity = Present True then 100
           else if \<exists>pref\<in>set (preferred_locations austin_profile). \<exists>pre mid suf.
                     (case opp_location austin_opportunity of Present s \<Rightarrow> s | _ \<Rightarrow> []) = pre @ mid @ suf \<and>
                     list_all2 same_ignoring_case pref mid
                then 100
           else if opp_remote austin_opportunity = Present True then 70
           else 0)"
    by blast
  then have score: "match_location plain_lower austin_opportunity austin_profile = 100"
    by (simp only: found austin_flags if_True if_False simp_thms)
  have split: "''Austin, TX'' = [] @ ''Austin'' @ '', TX''"
    by simp
  from austin_location austin_prefs austin_ascii split austin_same score
  show ?thesis by (intro conjI)
qed

section \<open>The profile invariant\<close>

text \<open>
  Claim C9: in every profile returned by \<open>create_user_profile\<close> the skills embedding is
  present if and only if the skills list is non-empty, and the interests embedding is
  present if and only if the interests list is non-empty.
\<close>

theorem profile_embedding_invariant:
  "(skills_embedding (create_user_profile encode ud) \<noteq> None)
     = (skills (create_user_profile encode ud) \<noteq> [])
   \<and> (interests_embedding (create_user_profile encode ud) \<noteq> None)
     = (interests (create_user_profile encode ud) \<noteq> [])"
  by (simp add: create_user_profile_def Let_def)

section \<open>Sample evaluations\<close>

lemma demo_skill: "skill_factor unit_encoder demo_opportunity default_profile = Inr ([], [])"
  by (simp add: skill_factor_def demo_opportunity_def)

lemma demo_location: "match_location plain_lower demo_opportunity default_profile = 0"
  by code_simp

lemma demo_type: "match_type plain_lower demo_opportunity default_profile = 100"
  by code_simp

lemma demo_experience: "match_experience plain_lower demo_opportunity default_profile = Inr 50"
  by code_simp

lemma demo_company: "match_company plain_lower demo_opportunity default_profile = 50"
  by code_simp

lemma demo_keywords: "match_keywords plain_lower demo_opportunity default_profile = Inr 50"
  by code_simp

lemma demo_total: "weighted_total unit_encoder plain_lower demo_opportunity default_profile = Inr 27.5"
  by (simp add: weighted_total_def demo_skill demo_location demo_type demo_experience
        demo_company demo_keywords)

lemma demo_open: "opp_is_still_open demo_opportunity = Absent"
  by (simp add: demo_opportunity_def)

lemma demo_score: "calculate_match_score unit_encoder plain_lower demo_opportunity default_profile = Inr 27.5"
  by (simp add: calculate_match_score_def demo_total apply_modifiers_eq demo_open)

lemma remote_skill: "skill_factor unit_encoder remote_opportunity default_profile = Inr ([], [])"
  by (simp add: skill_factor_def remote_opportunity_def demo_opportunity_def)

lemma remote_location: "match_location plain_lower remote_opportunity default_profile = 70"
  by code_simp

lemma remote_type: "match_type plain_lower remote_opportunity default_profile = 100"
  by code_simp

lemma remote_experience: "match_experience plain_lower remote_opportunity default_profile = Inr 50"
  by code_simp

lemma remote_company: "match_company plain_lower remote_opportunity default_profile = 50"
  by code_simp

lemma remote_keywords: "match_keywords plain_lower remote_opportunity default_profile = Inr 50"
  by code_simp

lemma remote_total: "weighted_total unit_encoder plain_lower remote_opportunity default_profile = Inr 41.5"
  by (simp add: weighted_total_def remote_skill remote_location remote_type remote_experience
        remote_company remote_keywords)

lemma remote_open: "opp_is_still_open remote_opportunity = Absent"
  by (simp add: remote_opportunity_def demo_opportunity_def)

lemma remote_score: "calculate_match_score unit_encoder plain_lower remote_opportunity default_profile = Inr 41.5"
  by (simp add: calculate_match_score_def remote_total apply_modifiers_eq remote_open)

lemma python_skill:
  "skill_factor unit_encoder python_opportunity python_profile = Inr ([100], [0.40])"
  by (simp add: skill_factor_def python_opportunity_def demo_opportunity_def python_profile_def
        create_user_profile_def empty_user_data_def unit_encoder_def cosine_similarity_def
        dot_def linalg_norm_def)

lemma python_cosine:
  "cosine_similarity (unit_encoder (join '', '' [''python''])) [1] = Inr (Some 1)"
  by (simp add: unit_encoder_def cosine_similarity_def dot_def linalg_norm_def)

lemma python_fields:
  "opp_skills python_opportunity = Present [''python'']"
  "skills_embedding python_profile = Some [1]"
  by (simp_all add: python_opportunity_def demo_opportunity_def python_profile_def
        create_user_profile_def empty_user_data_def unit_encoder_def)

lemma python_location: "match_location plain_lower python_opportunity python_profile = 0"
  by code_simp

lemma python_type: "match_type plain_lower python_opportunity python_profile = 100"
  by code_simp

lemma python_experience: "match_experience plain_lower python_opportunity python_profile = Inr 50"
  by code_simp

lemma python_company: "match_company plain_lower python_opportunity python_profile = 50"
  by code_simp

lemma python_keywords: "match_keywords plain_lower python_opportunity python_profile = Inr 50"
  by code_simp

lemma python_total: "weighted_total unit_encoder plain_lower python_opportunity python_profile = Inr 67.5"
  by (simp add: weighted_total_def python_skill python_location python_type python_experience
        python_company python_keywords)

section \<open>The weighted sum\<close>

lemma skill_factor_included:
  assumes "skill_factor encode opp prof = Inr (sc, ws)"
    and "truthy_list (opp_skills opp)" and "skills_embedding prof \<noteq> None"
  shows "\<exists>sk emb sim. opp_skills opp = Present sk \<and> sk \<noteq> [] \<and> skills_embedding prof = Some emb \<and>
           cosine_similarity (encode (join '', '' sk)) emb = Inr sim \<and>
           sc = [skill_score_of sim] \<and> ws = [0.40]"
  using assms
  by (cases "opp_skills opp"; cases "skills_embedding prof")
     (auto simp: skill_factor_def Let_def bind_err_Inr_iff split: if_splits)

lemma skill_factor_omitted:
  assumes "skill_factor encode opp prof = Inr (sc, ws)"
    and "\<not> (truthy_list (opp_skills opp) \<and> skills_embedding prof \<noteq> None)"
  shows "sc = [] \<and> ws = []"
  using assms
  by (cases "opp_skills opp"; cases "skills_embedding prof")
     (auto simp: skill_factor_def Let_def bind_err_Inr_iff split: if_splits)

text \<open>
  Claim C2: the aggregate before the modifiers is the weighted sum of the included factor
  scores, with the weights 0.40, 0.20, 0.15, 0.10, 0.10 and 0.05. The skill factor is
  included exactly when the opportunity has a non-empty skills list and the profile has a
  skills embedding. When it is left out the other weights are not renormalised: they sum
  to 0.60 and the aggregate is at most 60.
\<close>

theorem aggregate_is_weighted_sum:
  assumes "weighted_total encode ulower opp prof = Inr t"
  shows "\<exists>ex kw.
           match_experience ulower opp prof = Inr ex \<and> match_keywords ulower opp prof = Inr kw \<and>
           (truthy_list (opp_skills opp) \<and> skills_embedding prof \<noteq> None \<longrightarrow>
              (\<exists>sk emb sim.
                 opp_skills opp = Present sk \<and> sk \<noteq> [] \<and> skills_embedding prof = Some emb \<and>
                 cosine_similarity (encode (join '', '' sk)) emb = Inr sim \<and>
                 skill_factor encode opp prof = Inr ([skill_score_of sim], [0.40]) \<and>
                 t = 0.40 * skill_score_of sim + 0.20 * match_location ulower opp prof
                     + 0.15 * match_type ulower opp prof + 0.10 * ex
                     + 0.10 * match_company ulower opp prof + 0.05 * kw)) \<and>
           (\<not> (truthy_list (opp_skills opp) \<and> skills_embedding prof \<noteq> None) \<longrightarrow>
              skill_factor encode opp prof = Inr ([], []) \<and>
              t = 0.20 * match_location ulower opp prof + 0.15 * match_type ulower opp prof + 0.10 * ex
                  + 0.10 * match_company ulower opp prof + 0.05 * kw \<and>
              (0.20 + 0.15 + 0.10 + 0.10 + 0.05 = (0.60 :: real)) \<and>
              t \<le> 60)"
proof -
  from weighted_total_expand [OF assms] obtain sc ws ex kw where
    sf: "skill_factor encode opp prof = Inr (sc, ws)" and
    ex: "match_experience ulower opp prof = Inr ex" and
    kw: "match_keywords ulower opp prof = Inr kw" and
    t: "t = sum_list (map (\<lambda>(s, w). s * w)
                 (zip (sc @ [match_location ulower opp prof, match_type ulower opp prof, ex,
                             match_company ulower opp prof, kw])
                      (ws @ [0.20, 0.15, 0.10, 0.10, 0.05])))"
    by blast
  note b = match_location_range [of ulower opp prof] match_type_range [of ulower opp prof]
    match_company_range [of ulower opp prof] match_experience_range [OF ex] match_keywords_range [OF kw]
  have incl: "\<exists>sk emb sim.
                 opp_skills opp = Present sk \<and> sk \<noteq> [] \<and> skills_embedding prof = Some emb \<and>
                 cosine_similarity (encode (join '', '' sk)) emb = Inr sim \<and>
                 skill_factor encode opp prof = Inr ([skill_score_of sim], [0.40]) \<and>
                 t = 0.40 * skill_score_of sim + 0.20 * match_location ulower opp prof
                     + 0.15 * match_type ulower opp prof + 0.10 * ex
                     + 0.10 * match_company ulower opp prof + 0.05 * kw"
    if "truthy_list (opp_skills opp) \<and> skills_embedding prof \<noteq> None"
  proof -
    from skill_factor_included [OF sf] that obtain sk emb sim where
      f: "opp_skills opp = Present sk" "sk \<noteq> []" "skills_embedding prof = Some emb"
         "cosine_similarity (encode (join '', '' sk)) emb = Inr sim"
         "sc = [skill_score_of sim]" "ws = [0.40]"
      by blast
    have "t = 0.40 * skill_score_of sim + 0.20 * match_location ulower opp prof
                     + 0.15 * match_type ulower opp prof + 0.10 * ex
                     + 0.10 * match_company ulower opp prof + 0.05 * kw"
      by (simp add: t f(5,6))
    moreover have "skill_factor encode opp prof = Inr ([skill_score_of sim], [0.40])"
      using sf f(5,6) by simp
    ultimately show ?thesis using f(1-4) by blast
  qed
  have omit: "skill_factor encode opp prof = Inr ([], []) \<and>
              t = 0.20 * match_location ulower opp prof + 0.15 * match_type ulower opp prof + 0.10 * ex
                  + 0.10 * match_company ulower opp prof + 0.05 * kw \<and>
              (0.20 + 0.15 + 0.10 + 0.10 + 0.05 = (0.60 :: real)) \<and> t \<le> 60"
    if "\<not> (truthy_list (opp_skills opp) \<and> skills_embedding prof \<noteq> None)"
  proof -
    from skill_factor_omitted [OF sf that] have e: "sc = []" "ws = []" by auto
    have eq: "t = 0.20 * match_location ulower opp prof + 0.15 * match_type ulower opp prof + 0.10 * ex
                  + 0.10 * match_company ulower opp prof + 0.05 * kw"
      by (simp add: t e)
    have "skill_factor encode opp prof = Inr ([], [])"
      using sf e by simp
    with eq show ?thesis using b by simp
  qed
  from ex kw incl omit show ?thesis by blast
qed

theorem aggregate_is_weighted_sum_witness:
  "weighted_total unit_encoder plain_lower python_opportunity python_profile = Inr 67.5
   \<and> truthy_list (opp_skills python_opportunity) \<and> skills_embedding python_profile \<noteq> None
   \<and> (\<exists>sim. cosine_similarity (unit_encoder (join '', '' [''python''])) [1] = Inr sim
          \<and> skill_factor unit_encoder python_opportunity python_profile
                = Inr ([skill_score_of sim], [0.40])
          \<and> 67.5 = 0.40 * skill_score_of sim + 0.20 * match_location plain_lower python_opportunity python_profile
                    + 0.15 * match_type plain_lower python_opportunity python_profile + 0.10 * 50
                    + 0.10 * match_company plain_lower python_opportunity python_profile + 0.05 * 50)"
  using python_total aggregate_is_weighted_sum [OF python_total]
  by (simp add: python_fields python_experience python_keywords)

section \<open>Ranking\<close>

lemma factors_ignore_score:
  "skill_factor encode (opp\<lparr>opp_match_score := x\<rparr>) prof = skill_factor encode opp prof"
  "match_location ulower (opp\<lparr>opp_match_score := x\<rparr>) prof = match_location ulower opp prof"
  "match_type ulower (opp\<lparr>opp_match_score := x\<rparr>) prof = match_type ulower opp prof"
  "match_experience ulower (opp\<lparr>opp_match_score := x\<rparr>) prof = match_experience ulower opp prof"
  "match_company ulower (opp\<lparr>opp_match_score := x\<rparr>) prof = match_company ulower opp prof"
  "match_keywords ulower (opp\<lparr>opp_match_score := x\<rparr>) prof = match_keywords ulower opp prof"
  "apply_modifiers base (opp\<lparr>opp_match_score := x\<rparr>) prof = apply_modifiers base opp prof"
  by (simp_all add: skill_factor_def match_location_def match_type_def match_experience_def
        match_company_def match_keywords_def apply_modifiers_def
        cong: field.case_cong option.case_cong prod.case_cong)

lemma calculate_match_score_ignores_score:
  "calculate_match_score encode ulower (opp\<lparr>opp_match_score := x\<rparr>) prof
     = calculate_match_score encode ulower opp prof"
  by (simp add: calculate_match_score_def weighted_total_def factors_ignore_score)

lemma score_all_frame:
  "score_all encode ulower prof h opps = Inr h' \<Longrightarrow>
     h' a = (h a)\<lparr>opp_match_score := opp_match_score (h' a)\<rparr>"
proof (induction opps arbitrary: h)
  case Nil
  then show ?case by simp
next
  case (Cons b rest)
  from Cons.prems obtain s where
    s: "calculate_match_score encode ulower (h b) prof = Inr s" and
    r: "score_all encode ulower prof (h(b := (h b)\<lparr>opp_match_score := Some s\<rparr>)) rest = Inr h'"
    by (auto simp: bind_err_Inr_iff)
  from Cons.IH [OF r] show ?case
    by (cases "a = b") (auto split: if_splits)
qed

lemma score_all_untouched:
  "score_all encode ulower prof h opps = Inr h' \<Longrightarrow> a \<notin> set opps \<Longrightarrow> h' a = h a"
proof (induction opps arbitrary: h)
  case Nil
  then show ?case by simp
next
  case (Cons b rest)
  from Cons.prems obtain s where
    r: "score_all encode ulower prof (h(b := (h b)\<lparr>opp_match_score := Some s\<rparr>)) rest = Inr h'"
    by (auto simp: bind_err_Inr_iff)
  from Cons.IH [OF r] Cons.prems(2) show ?case by simp
qed

lemma score_all_scores:
  "score_all encode ulower prof h opps = Inr h' \<Longrightarrow> a \<in> set opps \<Longrightarrow>
     \<exists>s. calculate_match_score encode ulower (h a) prof = Inr s \<and> opp_match_score (h' a) = Some s"
proof (induction opps arbitrary: h)
  case Nil
  then show ?case by simp
next
  case (Cons b rest)
  from Cons.prems obtain s where
    s: "calculate_match_score encode ulower (h b) prof = Inr s" and
    r: "score_all encode ulower prof (h(b := (h b)\<lparr>opp_match_score := Some s\<rparr>)) rest = Inr h'"
    by (auto simp: bind_err_Inr_iff)
  have same: "calculate_match_score encode ulower ((h(b := (h b)\<lparr>opp_match_score := Some s\<rparr>)) a) prof
                = calculate_match_score encode ulower (h a) prof"
    by (simp add: calculate_match_score_ignores_score)
  show ?case
  proof (cases "a \<in> set rest")
    case True
    from Cons.IH [OF r True] same show ?thesis by simp
  next
    case False
    with Cons.prems(2) have ab: "a = b" by simp
    from score_all_untouched [OF r False] have "h' a = (h(b := (h b)\<lparr>opp_match_score := Some s\<rparr>)) a" .
    with ab s show ?thesis by simp
  qed
qed

lemma rank_opportunities_Inr:
  assumes "rank_opportunities encode ulower h opps prof = Inr (h', ranked)"
  shows "score_all encode ulower prof h opps = Inr h'"
    and "ranked = sorted_reverse (score_key h') opps"
    and "opps \<noteq> []"
proof -
  from assms obtain h1 where
    h1: "score_all encode ulower prof h opps = Inr h1" and
    rest: "(if list_ex (\<lambda>a. opp_match_score (h1 a) = None) opps then Inl KeyError
            else let ranked = sorted_reverse (score_key h1) opps
                 in case ranked of [] \<Rightarrow> Inl IndexError | best # _ \<Rightarrow> Inr (h1, ranked))
           = Inr (h', ranked)"
    by (auto simp: rank_opportunities_def bind_err_Inr_iff)
  from rest have eq: "h1 = h'" "ranked = sorted_reverse (score_key h1) opps" "ranked \<noteq> []"
    by (auto simp: Let_def split: if_splits list.splits)
  from h1 eq show "score_all encode ulower prof h opps = Inr h'" by simp
  from eq show "ranked = sorted_reverse (score_key h') opps" by simp
  from eq(2,3) show "opps \<noteq> []" by (auto simp: sorted_reverse_def)
qed

lemma demo_store_apply:
  "demo_store 10 = demo_opportunity" "demo_store 20 = remote_opportunity"
  "demo_store 30 = demo_opportunity"
  by (simp_all add: demo_store_def)

lemma score_all_demo:
  "score_all unit_encoder plain_lower default_profile demo_store [10, 20, 30] = Inr ranked_store"
  by (simp add: demo_store_apply demo_score remote_score ranked_store_def)

lemma ranked_store_scores:
  "opp_match_score (ranked_store 10) = Some 27.5"
  "opp_match_score (ranked_store 20) = Some 41.5"
  "opp_match_score (ranked_store 30) = Some 27.5"
  by (simp_all add: ranked_store_def)

lemma rank_demo:
  "rank_opportunities unit_encoder plain_lower demo_store [10, 20, 30] default_profile
     = Inr (ranked_store, [20, 10, 30])"
  by (simp add: rank_opportunities_def score_all_demo ranked_store_scores sorted_reverse_def
        score_key_def del: score_all.simps)

lemma rank_single:
  "rank_opportunities unit_encoder plain_lower demo_store [10] default_profile = Inr (scored_store, [10])"
  by (simp add: rank_opportunities_def demo_store_apply demo_score scored_store_def
        sorted_reverse_def score_key_def)

text \<open>
  Claim C3: the list returned by ranking is sorted by match score, highest first, and the
  sort is stable: records with equal scores keep the relative order of the input. The
  score that orders the list is the one \<open>calculate_match_score\<close> computes for the record.
\<close>

theorem rank_sorted_and_stable:
  assumes "rank_opportunities encode ulower h opps prof = Inr (h', ranked)"
  shows "sorted_wrt (\<lambda>a b. score_key h' b \<le> score_key h' a) ranked
         \<and> (\<forall>v. filter (\<lambda>a. score_key h' a = v) ranked = filter (\<lambda>a. score_key h' a = v) opps)
         \<and> (\<forall>a\<in>set opps. calculate_match_score encode ulower (h a) prof = Inr (score_key h' a))"
proof -
  note r = rank_opportunities_Inr [OF assms]
  have "\<forall>a\<in>set opps. calculate_match_score encode ulower (h a) prof = Inr (score_key h' a)"
  proof
    fix a assume "a \<in> set opps"
    from score_all_scores [OF r(1) this] show "calculate_match_score encode ulower (h a) prof = Inr (score_key h' a)"
      by (auto simp: score_key_def)
  qed
  then show ?thesis
    unfolding r(2) by (simp add: sorted_sorted_reverse sorted_reverse_stable)
qed

theorem rank_sorted_and_stable_witness:
  "rank_opportunities unit_encoder plain_lower demo_store [10, 20, 30] default_profile
     = Inr (ranked_store, [20, 10, 30])
   \<and> sorted_wrt (\<lambda>a b. score_key ranked_store b \<le> score_key ranked_store a) [20, 10, 30]
   \<and> filter (\<lambda>a. score_key ranked_store a = 27.5) [20, 10, 30]
       = filter (\<lambda>a. score_key ranked_store a = 27.5) [10, 20, 30]
   \<and> calculate_match_score unit_encoder plain_lower (demo_store 20) default_profile
       = Inr (score_key ranked_store 20)"
  using rank_demo rank_sorted_and_stable [OF rank_demo]
  by (simp add: score_key_def ranked_store_scores demo_store_apply remote_score)

text \<open>
  Claim C4 says that ranking mutates no input record and attaches the score to the result
  record only. The loop assigns \<^verbatim>\<open>opp['match_score']\<close> on the dictionaries of the input
  list itself: after ranking the one-element list at address 10, the input record at that
  address carries a score it did not have before.
\<close>

theorem rank_mutates_input_record:
  "rank_opportunities unit_encoder plain_lower demo_store [10] default_profile = Inr (scored_store, [10])
   \<and> opp_match_score (demo_store 10) = None
   \<and> opp_match_score (scored_store 10) = Some 27.5"
  by (simp add: rank_single demo_store_apply scored_store_def demo_opportunity_def)

text \<open>
  Claim C4, amended: ranking writes the computed score into every input record in place
  and changes nothing else. Every record keeps all its other fields, records outside the
  list are untouched, each listed record ends with the score computed from it, and the
  returned list holds the same records as the input list (it is a permutation of it).
\<close>

theorem rank_attaches_score_in_place:
  assumes "rank_opportunities encode ulower h opps prof = Inr (h', ranked)"
  shows "(\<forall>a. h' a = (h a)\<lparr>opp_match_score := opp_match_score (h' a)\<rparr>)
         \<and> (\<forall>a. a \<notin> set opps \<longrightarrow> h' a = h a)
         \<and> (\<forall>a\<in>set opps. \<exists>s. calculate_match_score encode ulower (h a) prof = Inr s
                                \<and> opp_match_score (h' a) = Some s)
         \<and> mset ranked = mset opps"
proof -
  note r = rank_opportunities_Inr [OF assms]
  show ?thesis
    using score_all_frame [OF r(1)] score_all_untouched [OF r(1)] score_all_scores [OF r(1)]
    unfolding r(2) by (simp add: mset_sorted_reverse)
qed

theorem rank_attaches_score_in_place_witness:
  "rank_opportunities unit_encoder plain_lower demo_store [10] default_profile = Inr (scored_store, [10])
   \<and> scored_store 10 = (demo_store 10)\<lparr>opp_match_score := opp_match_score (scored_store 10)\<rparr>
   \<and> scored_store 5 = demo_store 5
   \<and> mset [10::nat] = mset [10]"
  using rank_single rank_attaches_score_in_place [OF rank_single] by simp

section \<open>Filtering\<close>

lemma slice_to_subset: "set (slice_to xs n) \<subseteq> set xs"
  by (auto simp: slice_to_def dest: in_set_takeD)

lemma scored_fields:
  "get_match_score scored_opportunity = 80" "get_match_score demo_opportunity = 0"
  "get_match_score analyst_opportunity = 0"
  by (simp_all add: get_match_score_def scored_opportunity_def demo_opportunity_def
        analyst_opportunity_def)

text \<open>
  Claim C6 says that filtering fails with InvalidInput when \<^verbatim>\<open>min_score\<close> is outside
  [0,100] or \<^verbatim>\<open>max_results\<close> is negative. \<^verbatim>\<open>filter_opportunities\<close> checks neither: with
  the threshold 150 it returns the empty list, and with \<^verbatim>\<open>max_results = -1\<close> the slice
  drops the last record that passed; the operation as specified fails on both inputs.
\<close>

theorem filter_accepts_out_of_range_parameters:
  "filter_spec [scored_opportunity] 150 50 = Inl InvalidInput
   \<and> filter_opportunities [scored_opportunity] 150 50 = []
   \<and> filter_spec [scored_opportunity, demo_opportunity] 0 (- 1) = Inl InvalidInput
   \<and> filter_opportunities [scored_opportunity, demo_opportunity] 0 (- 1) = [scored_opportunity]"
  by (simp add: filter_spec_def filter_opportunities_def slice_to_def scored_fields)

text \<open>
  Claim C6, amended: filtering validates nothing and never fails. For every threshold and
  every \<^verbatim>\<open>max_results\<close> that is not negative it returns, in input order, the records whose
  score reaches the threshold (inclusive), truncated to at most \<^verbatim>\<open>max_results\<close> items;
  for parameters in range this is the result the specification asks for.
\<close>

theorem filter_threshold_then_truncate:
  assumes "0 \<le> max_results"
  shows "filter_opportunities opps min_score max_results
           = take (nat max_results) (filter (\<lambda>opp. min_score \<le> get_match_score opp) opps)
         \<and> length (filter_opportunities opps min_score max_results) \<le> nat max_results
         \<and> (\<forall>opp\<in>set (filter_opportunities opps min_score max_results).
               opp \<in> set opps \<and> min_score \<le> get_match_score opp)
         \<and> (0 \<le> min_score \<and> min_score \<le> 100 \<longrightarrow>
               filter_spec opps min_score max_results
                 = Inr (filter_opportunities opps min_score max_results))"
proof -
  have eq: "filter_opportunities opps min_score max_results
           = take (nat max_results) (filter (\<lambda>opp. min_score \<le> get_match_score opp) opps)"
    using assms by (simp add: filter_opportunities_def slice_to_def)
  have len: "length (filter_opportunities opps min_score max_results) \<le> nat max_results"
    unfolding eq by simp
  have mem: "\<forall>opp\<in>set (filter_opportunities opps min_score max_results).
               opp \<in> set opps \<and> min_score \<le> get_match_score opp"
  proof
    fix opp
    assume "opp \<in> set (filter_opportunities opps min_score max_results)"
    then have "opp \<in> set (filter (\<lambda>opp. min_score \<le> get_match_score opp) opps)"
      unfolding eq by (rule in_set_takeD)
    then show "opp \<in> set opps \<and> min_score \<le> get_match_score opp" by simp
  qed
  have spec: "0 \<le> min_score \<and> min_score \<le> 100 \<longrightarrow>
               filter_spec opps min_score max_results
                 = Inr (filter_opportunities opps min_score max_results)"
    unfolding eq using assms by (simp add: filter_spec_def)
  from eq len mem spec show ?thesis by (intro conjI)
qed

theorem filter_threshold_then_truncate_witness:
  "(0::int) \<le> 50
   \<and> filter_opportunities [scored_opportunity, demo_opportunity] 70 50 = [scored_opportunity]
   \<and> filter_spec [scored_opportunity, demo_opportunity] 70 50 = Inr [scored_opportunity]"
  using filter_threshold_then_truncate [of 50 "[scored_opportunity, demo_opportunity]" 70]
  by (simp add: scored_fields)

lemma analyst_differs: "analyst_opportunity \<noteq> demo_opportunity"
  by (simp add: analyst_opportunity_def demo_opportunity_def)

lemma analyst_unscored: "opp_match_score analyst_opportunity = None"
  by (simp add: analyst_opportunity_def demo_opportunity_def)

text \<open>
  Claim C10 says that a record without a match score is retained when \<^verbatim>\<open>min_score\<close> is 0.
  The truncation to \<^verbatim>\<open>max_results\<close> still applies: of two unscored records filtered
  with threshold 0 and \<^verbatim>\<open>max_results = 1\<close>, the second one is not in the result.
\<close>

theorem unscored_record_cut_by_truncation:
  "opp_match_score analyst_opportunity = None
   \<and> filter_opportunities [demo_opportunity, analyst_opportunity] 0 1 = [demo_opportunity]
   \<and> analyst_opportunity \<notin> set (filter_opportunities [demo_opportunity, analyst_opportunity] 0 1)"
  by (simp add: filter_opportunities_def slice_to_def scored_fields analyst_differs analyst_unscored)

text \<open>
  Claim C10, amended: filtering reads a missing match score as 0. For every positive
  threshold a record without a score is excluded from the result, whatever
  \<^verbatim>\<open>max_results\<close> is; with threshold 0 it passes the threshold, and it is in the result
  whenever \<^verbatim>\<open>max_results\<close> is at least the number of input records, so that the
  truncation cuts nothing.
\<close>

theorem filter_treats_missing_score_as_zero:
  assumes "opp_match_score opp = None"
  shows "get_match_score opp = 0
         \<and> (0 < min_score \<longrightarrow> opp \<notin> set (filter_opportunities opps min_score max_results))
         \<and> (min_score = 0 \<and> opp \<in> set opps \<and> int (length opps) \<le> max_results \<longrightarrow>
               opp \<in> set (filter_opportunities opps min_score max_results))"
proof -
  have zero: "get_match_score opp = 0"
    using assms by (simp add: get_match_score_def)
  have out: "opp \<notin> set (filter_opportunities opps min_score max_results)" if "0 < min_score"
  proof
    assume "opp \<in> set (filter_opportunities opps min_score max_results)"
    moreover have "set (filter_opportunities opps min_score max_results)
                     \<subseteq> set (filter (\<lambda>opp. min_score \<le> get_match_score opp) opps)"
      unfolding filter_opportunities_def Let_def by (rule slice_to_subset)
    ultimately have "opp \<in> set (filter (\<lambda>opp. min_score \<le> get_match_score opp) opps)"
      by (rule rev_subsetD)
    then show False using zero that by simp
  qed
  have kept: "opp \<in> set (filter_opportunities opps min_score max_results)"
    if "min_score = 0 \<and> opp \<in> set opps \<and> int (length opps) \<le> max_results"
  proof -
    have "int (length (filter (\<lambda>opp. min_score \<le> get_match_score opp) opps)) \<le> max_results"
      using that length_filter_le [of "\<lambda>opp. min_score \<le> get_match_score opp" opps] by linarith
    then have "0 \<le> max_results"
      and "length (filter (\<lambda>opp. min_score \<le> get_match_score opp) opps) \<le> nat max_results"
      by linarith+
    then have "filter_opportunities opps min_score max_results
            = filter (\<lambda>opp. min_score \<le> get_match_score opp) opps"
      by (simp add: filter_opportunities_def slice_to_def)
    with that zero show ?thesis by simp
  qed
  from zero out kept show ?thesis by blast
qed

theorem filter_treats_missing_score_as_zero_witness:
  "opp_match_score analyst_opportunity = None
   \<and> analyst_opportunity \<notin> set (filter_opportunities [demo_opportunity, analyst_opportunity] 10 50)
   \<and> analyst_opportunity \<in> set (filter_opportunities [demo_opportunity, analyst_opportunity] 0 50)"
  using filter_treats_missing_score_as_zero [OF analyst_unscored, of 10 "[demo_opportunity, analyst_opportunity]" 50]
    filter_treats_missing_score_as_zero [OF analyst_unscored, of 0 "[demo_opportunity, analyst_opportunity]" 50]
  by (simp add: analyst_unscored)

section \<open>Modifiers\<close>

lemma factors_ignore_open:
  "skill_factor encode (opp\<lparr>opp_is_still_open := x\<rparr>) prof = skill_factor encode opp prof"
  "match_location ulower (opp\<lparr>opp_is_still_open := x\<rparr>) prof = match_location ulower opp prof"
  "match_type ulower (opp\<lparr>opp_is_still_open := x\<rparr>) prof = match_type ulower opp prof"
  "match_experience ulower (opp\<lparr>opp_is_still_open := x\<rparr>) prof = match_experience ulower opp prof"
  "match_company ulower (opp\<lparr>opp_is_still_open := x\<rparr>) prof = match_company ulower opp prof"
  "match_keywords ulower (opp\<lparr>opp_is_still_open := x\<rparr>) prof = match_keywords ulower opp prof"
  by (simp_all add: skill_factor_def match_location_def match_type_def match_experience_def
        match_company_def match_keywords_def
        cong: field.case_cong option.case_cong prod.case_cong)

lemma factors_ignore_compensation:
  "skill_factor encode (opp\<lparr>opp_compensation := c\<rparr>) (prof\<lparr>salary_min := m\<rparr>)
     = skill_factor encode opp prof"
  "match_location ulower (opp\<lparr>opp_compensation := c\<rparr>) (prof\<lparr>salary_min := m\<rparr>)
     = match_location ulower opp prof"
  "match_type ulower (opp\<lparr>opp_compensation := c\<rparr>) (prof\<lparr>salary_min := m\<rparr>) = match_type ulower opp prof"
  "match_experience ulower (opp\<lparr>opp_compensation := c\<rparr>) (prof\<lparr>salary_min := m\<rparr>)
     = match_experience ulower opp prof"
  "match_company ulower (opp\<lparr>opp_compensation := c\<rparr>) (prof\<lparr>salary_min := m\<rparr>)
     = match_company ulower opp prof"
  "match_keywords ulower (opp\<lparr>opp_compensation := c\<rparr>) (prof\<lparr>salary_min := m\<rparr>)
     = match_keywords ulower opp prof"
  by (simp_all add: skill_factor_def match_location_def match_type_def match_experience_def
        match_company_def match_keywords_def
        cong: field.case_cong option.case_cong prod.case_cong)

lemma weighted_total_ignores_open:
  "weighted_total encode ulower (opp\<lparr>opp_is_still_open := x\<rparr>) prof = weighted_total encode ulower opp prof"
  by (simp add: weighted_total_def factors_ignore_open)

lemma weighted_total_ignores_compensation:
  "weighted_total encode ulower (opp\<lparr>opp_compensation := c\<rparr>) (prof\<lparr>salary_min := m\<rparr>)
     = weighted_total encode ulower opp prof"
  by (simp add: weighted_total_def factors_ignore_compensation)

text \<open>
  Claim C7: an opportunity with \<^verbatim>\<open>is_still_open = False\<close> scores exactly half the
  weighted aggregate that the same opportunity with \<^verbatim>\<open>is_still_open = True\<close> receives
  before clamping. The factor 0.5 is applied once, after the weighting and before the
  clamp to [0,100] (which then changes nothing), and neither the compensation of the
  opportunity nor the minimum salary of the profile alters the score.
\<close>

theorem closed_opportunity_scores_half:
  assumes "opp_is_still_open opp = Present False"
    and "weighted_total encode ulower (opp\<lparr>opp_is_still_open := Present True\<rparr>) prof = Inr t"
  shows "calculate_match_score encode ulower opp prof = Inr (0.5 * t)
         \<and> apply_modifiers t opp prof = 0.5 * t
         \<and> apply_modifiers t (opp\<lparr>opp_is_still_open := Present True\<rparr>) prof = t
         \<and> calculate_match_score encode ulower (opp\<lparr>opp_is_still_open := Present True\<rparr>) prof = Inr t
         \<and> apply_modifiers t (opp\<lparr>opp_compensation := c\<rparr>) (prof\<lparr>salary_min := m\<rparr>)
             = apply_modifiers t opp prof
         \<and> calculate_match_score encode ulower (opp\<lparr>opp_compensation := c\<rparr>) (prof\<lparr>salary_min := m\<rparr>)
             = calculate_match_score encode ulower opp prof"
proof -
  from assms(2) have total: "weighted_total encode ulower opp prof = Inr t"
    by (simp add: weighted_total_ignores_open)
  from weighted_total_range [OF total] have range: "0 \<le> t" "t \<le> 100" by auto
  have closed: "apply_modifiers t opp prof = 0.5 * t"
    using assms(1) by (simp add: apply_modifiers_eq)
  have opened: "apply_modifiers t (opp\<lparr>opp_is_still_open := Present True\<rparr>) prof = t"
    by (simp add: apply_modifiers_eq)
  have half: "calculate_match_score encode ulower opp prof = Inr (0.5 * t)"
    using range by (simp add: calculate_match_score_def total closed)
  have full: "calculate_match_score encode ulower (opp\<lparr>opp_is_still_open := Present True\<rparr>) prof = Inr t"
    using range by (simp add: calculate_match_score_def assms(2) opened)
  have comp: "apply_modifiers t (opp\<lparr>opp_compensation := c\<rparr>) (prof\<lparr>salary_min := m\<rparr>)
             = apply_modifiers t opp prof"
    by (simp add: apply_modifiers_eq)
  have comp_score: "calculate_match_score encode ulower (opp\<lparr>opp_compensation := c\<rparr>) (prof\<lparr>salary_min := m\<rparr>)
             = calculate_match_score encode ulower opp prof"
    by (simp add: calculate_match_score_def weighted_total_ignores_compensation apply_modifiers_eq)
  from half closed opened full comp comp_score show ?thesis by simp
qed

lemma closed_field: "opp_is_still_open closed_opportunity = Present False"
  by (simp add: closed_opportunity_def)

lemma reopened_total:
  "weighted_total unit_encoder plain_lower (closed_opportunity\<lparr>opp_is_still_open := Present True\<rparr>)
     default_profile = Inr 27.5"
  by (simp add: closed_opportunity_def weighted_total_ignores_open demo_total)

theorem closed_opportunity_scores_half_witness:
  "opp_is_still_open closed_opportunity = Present False
   \<and> weighted_total unit_encoder plain_lower (closed_opportunity\<lparr>opp_is_still_open := Present True\<rparr>)
       default_profile = Inr 27.5
   \<and> calculate_match_score unit_encoder plain_lower closed_opportunity default_profile = Inr 13.75"
  using closed_field reopened_total
    closed_opportunity_scores_half [OF closed_field reopened_total]
  by simp

end
